theory Spec2Isabelle
  imports Main
begin

section \<open>Python values, exceptions and the collaborators of \<open>verify_address\<close>\<close>

text \<open>
  The values that flow through \<open>util/melissa.py\<close>: what \<open>json.loads\<close> returns, the
  attributes of a \<open>requests\<close> response and the columns of a stored row. A dict is an
  association list read with \<open>map_of\<close>; its keys are strings, as in decoded JSON. A float is
  kept as a mantissa and an exponent: the code never computes with one.
\<close>

datatype pyval =
    PNone
  | PBool bool
  | PInt int
  | PFloat int int
  | PStr string
  | PList "pyval list"
  | PDict "(string \<times> pyval) list"

text \<open>Every exception the function can raise is a value; the argument is the message or key.\<close>

datatype exn =
    KeyError pyval
  | RepoException string
  | Exception string
  | ValueError string
  | TypeError
  | IndexError
  | AttributeError
  | JSONDecodeError

text \<open>The attributes of \<open>requests.Response\<close> the function reads.\<close>

record response =
  ok :: bool
  status_code :: pyval
  reason :: pyval
  response_text :: string

text \<open>The row \<open>check_duplicate\<close> returns for a prior record, with the columns the function reads.\<close>

record melissa_row =
  result_address_1 :: pyval
  result_address_2 :: pyval
  result_address_3 :: pyval
  result_city :: pyval
  result_state :: pyval
  result_postal :: pyval
  result_country :: pyval
  result_latitude :: pyval
  result_longitude :: pyval
  result_good :: pyval

text \<open>The local variables of lines 112 to 149 that are handed to \<open>update_results\<close>.\<close>

record parsed_record =
  r_formatted_address :: pyval
  r_codes :: string
  r_good :: bool
  r_address_1 :: pyval
  r_address_2 :: pyval
  r_address_3 :: pyval
  r_city :: pyval
  r_state :: pyval
  r_postal :: pyval
  r_country :: pyval
  r_latitude :: pyval
  r_longitude :: pyval

text \<open>
  \<open>MelissaRepo\<close>, \<open>Transaction\<close>, \<open>SERVER_CONFIG\<close>, \<open>requests\<close>, \<open>urllib\<close> and \<open>json\<close> are
  not part of the file: what they answer during one call is a parameter. \<open>check_duplicate\<close>
  answers \<open>None\<close> for Python's \<open>False\<close>, \<open>create_record\<close> answers \<open>None\<close> for Python's
  \<open>None\<close>, \<open>json_loads\<close> answers \<open>None\<close> when decoding raises. The record identifier is a
  string, as both error messages that concatenate it require. A collaborator that raises
  on its own (a lost connection, a database error) is outside the model.
\<close>

record env =
  melissa_license_key :: string
  melissa_url :: string
  check_duplicate ::
    "string option \<Rightarrow> string option \<Rightarrow> string option \<Rightarrow> string option \<Rightarrow> melissa_row option"
  create_record ::
    "string option \<Rightarrow> string option \<Rightarrow> string option \<Rightarrow> string option \<Rightarrow> string option
       \<Rightarrow> string option \<Rightarrow> string option \<Rightarrow> string option"
  urlencode :: "(string \<times> pyval) list \<Rightarrow> string"
  requests_get :: "string \<Rightarrow> response"
  json_loads :: "string \<Rightarrow> pyval option"
  update_results :: "string \<Rightarrow> string \<Rightarrow> string \<Rightarrow> parsed_record \<Rightarrow> bool"

text \<open>
  What the function does to the outside world, in order: entering and leaving the
  \<open>with Transaction()\<close> block, each call on the repository with its arguments, the HTTP
  request, and the commit.
\<close>

datatype event =
    TransactionEnter
  | CheckDuplicate "string option" "string option" "string option" "string option"
  | CreateRecord "string option" "string option" "string option" "string option"
      "string option" "string option" "string option"
  | RequestsGet string
  | UpdateResults string string string parsed_record
  | Commit
  | TransactionExit

type_synonym outcome = "(exn + (string \<times> pyval) list) \<times> event list"

section \<open>Python operations\<close>

fun and_then :: "exn + 'a \<Rightarrow> ('a \<Rightarrow> exn + 'b) \<Rightarrow> exn + 'b" where
  "and_then (Inl e) f = Inl e"
| "and_then (Inr x) f = f x"

text \<open>\<open>s + x\<close> for a string \<open>s\<close>: only a string can be concatenated to it.\<close>

fun str_add :: "string \<Rightarrow> pyval \<Rightarrow> exn + string" where
  "str_add s (PStr t) = Inr (s @ t)"
| "str_add s _ = Inl TypeError"

text \<open>\<open>k in x.keys()\<close>: only a dict has \<open>keys\<close>.\<close>

fun in_keys :: "string \<Rightarrow> pyval \<Rightarrow> exn + bool" where
  "in_keys k (PDict d) = Inr (map_of d k \<noteq> None)"
| "in_keys k _ = Inl AttributeError"

text \<open>\<open>x[k]\<close> for a string key \<open>k\<close>.\<close>

fun getitem :: "pyval \<Rightarrow> string \<Rightarrow> exn + pyval" where
  "getitem (PDict d) k = (case map_of d k of None \<Rightarrow> Inl (KeyError (PStr k)) | Some v \<Rightarrow> Inr v)"
| "getitem _ k = Inl TypeError"

text \<open>\<open>x[0]\<close>: the first element of a list or string; a dict with string keys has no key 0.\<close>

fun getitem_0 :: "pyval \<Rightarrow> exn + pyval" where
  "getitem_0 (PList []) = Inl IndexError"
| "getitem_0 (PList (x # xs)) = Inr x"
| "getitem_0 (PStr []) = Inl IndexError"
| "getitem_0 (PStr (c # cs)) = Inr (PStr [c])"
| "getitem_0 (PDict d) = Inl (KeyError (PInt 0))"
| "getitem_0 _ = Inl TypeError"

text \<open>\<open>s.split(",")\<close>: one more part than there are commas; the empty string gives \<open>[""]\<close>.\<close>

fun split_comma :: "string \<Rightarrow> string list" where
  "split_comma [] = [[]]"
| "split_comma (c # cs) =
     (if c = CHR '','' then [] # split_comma cs
      else (case split_comma cs of [] \<Rightarrow> [[c]] | w # ws \<Rightarrow> (c # w) # ws))"

fun opt_str :: "string option \<Rightarrow> pyval" where
  "opt_str None = PNone"
| "opt_str (Some s) = PStr s"

section \<open>The response classification (lines 114 to 139)\<close>

definition GOOD_CODES :: "string list" where
  "GOOD_CODES = [''AV25'', ''AV24'', ''AV23'', ''AV22'', ''AV21'']"

definition GOOD_CODES_NO_ERROR :: "string list" where
  "GOOD_CODES_NO_ERROR = [''AV14'']"

text \<open>
  The \<open>for code in codes\<close> loop with its \<open>break\<close>, on the three flags
  \<open>(r_good, r_errors_present, r_good_conditional)\<close>.
\<close>

fun scan_codes :: "string list \<Rightarrow> bool \<times> bool \<times> bool \<Rightarrow> bool \<times> bool \<times> bool" where
  "scan_codes [] flags = flags"
| "scan_codes (code # codes) (good, errors_present, good_conditional) =
     (let errors_present' = (if take 2 code = ''AE'' then True else errors_present);
          good_conditional' =
            (if code \<in> set GOOD_CODES_NO_ERROR then True else good_conditional)
      in if code \<in> set GOOD_CODES then (True, errors_present', good_conditional')
         else scan_codes codes (good, errors_present', good_conditional'))"

text \<open>Lines 114 to 129: the verdict of the code scan, before the PO-box check.\<close>

definition scan_verdict :: "string list \<Rightarrow> bool" where
  "scan_verdict codes =
     (case scan_codes codes (False, False, False) of
        (good, errors_present, good_conditional) \<Rightarrow>
          (if good_conditional \<and> \<not> errors_present then True else good))"

text \<open>The two tests of lines 134 and 135.\<close>

definition po_box_override :: "bool \<Rightarrow> (string \<times> pyval) list \<Rightarrow> bool" where
  "po_box_override block_po_boxes record_obj =
     (block_po_boxes \<and> map_of record_obj ''AddressType'' \<noteq> None \<and>
      map_of record_obj ''AddressType'' = Some (PStr ''P''))"

text \<open>Lines 114 to 139: the verdict and the code string that is stored.\<close>

definition classify :: "bool \<Rightarrow> (string \<times> pyval) list \<Rightarrow> string \<Rightarrow> bool \<times> string" where
  "classify block_po_boxes record_obj codes_str =
     (let good = scan_verdict (split_comma codes_str)
      in if po_box_override block_po_boxes record_obj then (False, codes_str @ '',AEPOBOX'')
         else (good, codes_str))"

section \<open>\<open>verify_address\<close>\<close>

text \<open>Lines 141 to 149: the normalized address fields of the record.\<close>

definition read_fields ::
  "(string \<times> pyval) list \<Rightarrow> pyval \<Rightarrow> string \<Rightarrow> bool \<Rightarrow> exn + parsed_record" where
  "read_fields d formatted_address codes_str good =
     and_then (getitem (PDict d) ''AddressLine1'') (\<lambda>address_1.
     and_then (getitem (PDict d) ''AddressLine2'') (\<lambda>address_2.
     and_then (getitem (PDict d) ''AddressLine3'') (\<lambda>address_3.
     and_then (getitem (PDict d) ''Locality'') (\<lambda>city.
     and_then (getitem (PDict d) ''AdministrativeArea'') (\<lambda>state.
     and_then (getitem (PDict d) ''PostalCode'') (\<lambda>postal.
     and_then (getitem (PDict d) ''CountryName'') (\<lambda>country.
     and_then (getitem (PDict d) ''Latitude'') (\<lambda>latitude.
     and_then (getitem (PDict d) ''Longitude'') (\<lambda>longitude.
       Inr \<lparr>r_formatted_address = formatted_address, r_codes = codes_str,
            r_good = good, r_address_1 = address_1, r_address_2 = address_2,
            r_address_3 = address_3, r_city = city, r_state = state,
            r_postal = postal, r_country = country, r_latitude = latitude,
            r_longitude = longitude\<rparr>)))))))))"

text \<open>
  Lines 110 to 149: reading the first record of the response. Only a dict can be indexed by
  a string (line 112), and only a string has \<open>split\<close> (line 118).
\<close>

fun parse_record :: "bool \<Rightarrow> pyval \<Rightarrow> exn + parsed_record" where
  "parse_record block_po_boxes (PDict d) =
     and_then (getitem (PDict d) ''FormattedAddress'') (\<lambda>formatted_address.
     and_then (getitem (PDict d) ''Results'') (\<lambda>codes_val.
       (case codes_val of
          PStr codes_str \<Rightarrow>
            (case classify block_po_boxes d codes_str of
               (good, codes_str') \<Rightarrow> read_fields d formatted_address codes_str' good)
        | _ \<Rightarrow> Inl AttributeError)))"
| "parse_record block_po_boxes _ = Inl TypeError"

text \<open>Lines 151 to 179: storing the results, committing, and building the returned dict.\<close>

definition store_results :: "env \<Rightarrow> string \<Rightarrow> string \<Rightarrow> string \<Rightarrow> parsed_record \<Rightarrow> outcome" where
  "store_results e record_id url response_raw p =
     (let u_success = update_results e record_id url response_raw p;
          events = [UpdateResults record_id url response_raw p, Commit]
      in if \<not> u_success
         then (Inl (ValueError (''Failed to update results for Melissa Address Query '' @ record_id)),
               events)
         else (Inr [(''address_1'', r_address_1 p),
                    (''address_2'', r_address_2 p),
                    (''address_3'', r_address_3 p),
                    (''city'', r_city p),
                    (''state'', r_state p),
                    (''postal'', r_postal p),
                    (''country'', r_country p),
                    (''latitude'', r_latitude p),
                    (''longitude'', r_longitude p),
                    (''valid'', PBool (r_good p))],
               events))"

text \<open>Lines 94 to 185: from the HTTP response to the result.\<close>

definition handle_response :: "env \<Rightarrow> string \<Rightarrow> string \<Rightarrow> bool \<Rightarrow> response \<Rightarrow> outcome" where
  "handle_response e record_id url block_po_boxes resp =
     (if \<not> ok resp then
        (case and_then (str_add '' Status Code: '' (status_code resp)) (\<lambda>s1.
              and_then (str_add '' Status Text: '' (reason resp)) (\<lambda>s2.
                Inr (''Error connecting to Melissa API.'' @ s1 @ s2))) of
           Inl err \<Rightarrow> (Inl err, [])
         | Inr exception_msg \<Rightarrow> (Inl (Exception exception_msg), []))
      else
        (case json_loads e (response_text resp) of
           None \<Rightarrow> (Inl JSONDecodeError, [])
         | Some response_obj \<Rightarrow>
             (case in_keys ''Records'' response_obj of
                Inl err \<Rightarrow> (Inl err, [])
              | Inr True \<Rightarrow>
                  (case and_then (and_then (getitem response_obj ''Records'') getitem_0)
                          (parse_record block_po_boxes) of
                     Inl err \<Rightarrow> (Inl err, [])
                   | Inr p \<Rightarrow> store_results e record_id url (response_text resp) p)
              | Inr False \<Rightarrow>
                  (Inl (Exception (''Melissa Global Address API failed on '' @ record_id)),
                   [Commit]))))"

text \<open>Lines 68 to 91: the request parameters, in the order the dict receives them.\<close>

definition url_params ::
  "env \<Rightarrow> string \<Rightarrow> string option \<Rightarrow> string option \<Rightarrow> string option \<Rightarrow> string option
     \<Rightarrow> string option \<Rightarrow> string option \<Rightarrow> string option \<Rightarrow> (string \<times> pyval) list" where
  "url_params e record_id address_1 address_2 address_3 city state postal country =
     [(''id'', PStr (melissa_license_key e)),
      (''opt'', PStr ''DeliveryLines:ON''),
      (''format'', PStr ''JSON''),
      (''t'', PStr record_id),
      (''a1'', opt_str address_1),
      (''loc'', opt_str city),
      (''admarea'', opt_str state),
      (''postal'', opt_str postal),
      (''ctry'', opt_str country),
      (''a2'', (case address_2 of Some a \<Rightarrow> PStr a | None \<Rightarrow> PStr '''')),
      (''a3'', (case address_3 of Some a \<Rightarrow> PStr a | None \<Rightarrow> PStr ''''))]"

definition request_url ::
  "env \<Rightarrow> string \<Rightarrow> string option \<Rightarrow> string option \<Rightarrow> string option \<Rightarrow> string option
     \<Rightarrow> string option \<Rightarrow> string option \<Rightarrow> string option \<Rightarrow> string" where
  "request_url e record_id address_1 address_2 address_3 city state postal country =
     melissa_url e @ ''?'' @
       urlencode e (url_params e record_id address_1 address_2 address_3 city state postal country)"

text \<open>\<open>x is None or len(x) < 1\<close> for an argument that is \<open>None\<close> or a string.\<close>

fun absent :: "string option \<Rightarrow> bool" where
  "absent None = True"
| "absent (Some s) = (length s < 1)"

definition validation_error :: exn where
  "validation_error = KeyError (PStr ''Must include address_1, postal, and country fields'')"

text \<open>Lines 43 to 185: the body of the \<open>with Transaction() as t\<close> block.\<close>

definition transaction_body ::
  "env \<Rightarrow> string option \<Rightarrow> string option \<Rightarrow> string option \<Rightarrow> string option \<Rightarrow> string option
     \<Rightarrow> string option \<Rightarrow> string option \<Rightarrow> bool \<Rightarrow> outcome" where
  "transaction_body e address_1 address_2 address_3 city state postal country block_po_boxes =
     (case check_duplicate e address_1 address_2 postal country of
        Some dupe_status \<Rightarrow>
          (Inr [(''address_1'', result_address_1 dupe_status),
                (''address_2'', result_address_2 dupe_status),
                (''address_3'', result_address_3 dupe_status),
                (''city'', result_city dupe_status),
                (''state'', result_state dupe_status),
                (''postal'', result_postal dupe_status),
                (''country'', result_country dupe_status),
                (''latitude'', result_latitude dupe_status),
                (''longitude'', result_longitude dupe_status),
                (''valid'', result_good dupe_status),
                (''duplicate'', PBool True)],
           [CheckDuplicate address_1 address_2 postal country])
      | None \<Rightarrow>
          (case create_record e address_1 address_2 address_3 city state postal country of
             None \<Rightarrow>
               (Inl (RepoException ''Failed to create record in database.''),
                [CheckDuplicate address_1 address_2 postal country,
                 CreateRecord address_1 address_2 address_3 city state postal country])
           | Some record_id \<Rightarrow>
               (let url = request_url e record_id address_1 address_2 address_3 city state
                            postal country;
                    resp = requests_get e url
                in case handle_response e record_id url block_po_boxes resp of
                     (result, events) \<Rightarrow>
                       (result,
                        [CheckDuplicate address_1 address_2 postal country,
                         CreateRecord address_1 address_2 address_3 city state postal country,
                         RequestsGet url] @ events))))"

text \<open>
  The whole function. The validation of line 36 comes before the \<open>with\<close> block; the block
  is entered and, on a return as on an exception, left. An exception raised inside the
  block propagates to the caller.
\<close>

definition verify_address ::
  "env \<Rightarrow> string option \<Rightarrow> string option \<Rightarrow> string option \<Rightarrow> string option \<Rightarrow> string option
     \<Rightarrow> string option \<Rightarrow> string option \<Rightarrow> bool \<Rightarrow> outcome" where
  "verify_address e address_1 address_2 address_3 city state postal country block_po_boxes =
     (if absent address_1 \<or> absent postal \<or> absent country
      then (Inl validation_error, [])
      else (case transaction_body e address_1 address_2 address_3 city state postal country
                   block_po_boxes of
              (result, events) \<Rightarrow> (result, TransactionEnter # events @ [TransactionExit])))"

section \<open>Sample collaborators\<close>

text \<open>
  Concrete collaborators on which the theorems below are exercised: a repository that
  answers the duplicate lookup, the record creation and the update as given, and an HTTP
  layer that answers every request with the given response, decoded as given. The query
  string stands for what \<open>urllib.parse.urlencode\<close> returns.
\<close>

definition sample_env ::
  "melissa_row option \<Rightarrow> string option \<Rightarrow> response \<Rightarrow> pyval option \<Rightarrow> bool \<Rightarrow> env" where
  "sample_env dupe_status record_id resp response_obj u_success =
     \<lparr>melissa_license_key = ''LICENSE'',
      melissa_url = ''https://melissa.example/doGlobalAddress'',
      check_duplicate = (\<lambda>address_1 address_2 postal country. dupe_status),
      create_record = (\<lambda>address_1 address_2 address_3 city state postal country. record_id),
      urlencode = (\<lambda>params. ''query''),
      requests_get = (\<lambda>url. resp),
      json_loads = (\<lambda>raw. response_obj),
      update_results = (\<lambda>record_id url response_raw p. u_success)\<rparr>"

definition sample_row :: melissa_row where
  "sample_row =
     \<lparr>result_address_1 = PStr ''123 Main St'', result_address_2 = PNone,
      result_address_3 = PNone, result_city = PStr ''Springfield'',
      result_state = PStr ''IL'', result_postal = PStr ''12345-6789'',
      result_country = PStr ''United States of America'',
      result_latitude = PStr ''39.7817'', result_longitude = PStr ''-89.6501'',
      result_good = PBool True\<rparr>"

definition sample_record :: "string \<Rightarrow> (string \<times> pyval) list" where
  "sample_record codes =
     [(''FormattedAddress'', PStr ''123 Main St;Springfield IL 12345-6789''),
      (''Results'', PStr codes),
      (''AddressType'', PStr ''S''),
      (''AddressLine1'', PStr ''123 Main St''),
      (''AddressLine2'', PStr ''Springfield IL 12345-6789''),
      (''AddressLine3'', PStr []),
      (''Locality'', PStr ''Springfield''),
      (''AdministrativeArea'', PStr ''IL''),
      (''PostalCode'', PStr ''12345-6789''),
      (''CountryName'', PStr ''United States of America''),
      (''Latitude'', PStr ''39.7817''),
      (''Longitude'', PStr ''-89.6501'')]"

definition sample_parsed :: parsed_record where
  "sample_parsed =
     \<lparr>r_formatted_address = PStr ''123 Main St;Springfield IL 12345-6789'',
      r_codes = ''AV25'', r_good = True,
      r_address_1 = PStr ''123 Main St'',
      r_address_2 = PStr ''Springfield IL 12345-6789'',
      r_address_3 = PStr [],
      r_city = PStr ''Springfield'', r_state = PStr ''IL'',
      r_postal = PStr ''12345-6789'',
      r_country = PStr ''United States of America'',
      r_latitude = PStr ''39.7817'', r_longitude = PStr ''-89.6501''\<rparr>"

definition ok_response :: "string \<Rightarrow> response" where
  "ok_response raw =
     \<lparr>ok = True, status_code = PInt 200, reason = PStr ''OK'', response_text = raw\<rparr>"

definition error_response :: response where
  "error_response =
     \<lparr>ok = False, status_code = PInt 500, reason = PStr ''Internal Server Error'',
      response_text = []\<rparr>"

text \<open>The texts of two responses, and what they decode to.\<close>

definition records_body :: string where
  \<open>records_body =
     ''{"Version":"3.0.1.160","TotalRecords":"1","Records":[{'' @
     ''"FormattedAddress":"123 Main St;Springfield IL 12345-6789",'' @
     ''"Results":"AV25","AddressType":"S","AddressLine1":"123 Main St",'' @
     ''"AddressLine2":"Springfield IL 12345-6789","AddressLine3":"",'' @
     ''"Locality":"Springfield","AdministrativeArea":"IL","PostalCode":"12345-6789",'' @
     ''"CountryName":"United States of America","Latitude":"39.7817",'' @
     ''"Longitude":"-89.6501"}]}''\<close>

definition empty_records_body :: string where
  \<open>empty_records_body = ''{"Version":"3.0.1.160","TotalRecords":"0","Records":[]}''\<close>

definition no_records_body :: string where
  \<open>no_records_body = ''{"Version":"3.0.1.160","TransmissionResults":"GE05","TotalRecords":"0"}''\<close>

definition records_obj :: "string \<Rightarrow> pyval" where
  "records_obj codes =
     PDict [(''Version'', PStr ''3.0.1.160''), (''TotalRecords'', PStr ''1''),
            (''Records'', PList [PDict (sample_record codes)])]"

definition no_records_obj :: pyval where
  "no_records_obj =
     PDict [(''Version'', PStr ''3.0.1.160''), (''TransmissionResults'', PStr ''GE05''),
            (''TotalRecords'', PStr ''0'')]"

definition empty_records_obj :: pyval where
  "empty_records_obj =
     PDict [(''Version'', PStr ''3.0.1.160''), (''TotalRecords'', PStr ''0''),
            (''Records'', PList [])]"

section \<open>Properties of the trace\<close>

text \<open>
  The text of the provider's response reaches the repository only as the third argument of
  \<open>update_results\<close>: it is persisted on a record when such a call for that record comes
  before the commit.
\<close>

fun stores_raw_response :: "string \<Rightarrow> string \<Rightarrow> event \<Rightarrow> bool" where
  "stores_raw_response record_id raw (UpdateResults i url r p) = (i = record_id \<and> r = raw)"
| "stores_raw_response record_id raw _ = False"

fun is_commit :: "event \<Rightarrow> bool" where
  "is_commit Commit = True"
| "is_commit _ = False"

fun not_commit :: "event \<Rightarrow> bool" where
  "not_commit ev = (\<not> is_commit ev)"

definition raw_response_persisted :: "string \<Rightarrow> string \<Rightarrow> event list \<Rightarrow> bool" where
  "raw_response_persisted record_id raw events =
     (list_ex is_commit events \<and>
      list_ex (stores_raw_response record_id raw) (takeWhile not_commit events))"

text \<open>The keys lines 112 to 149 read from the record, and the errors reading them can raise.\<close>

definition record_keys :: "string list" where
  "record_keys = [''FormattedAddress'', ''Results'', ''AddressLine1'', ''AddressLine2'',
     ''AddressLine3'', ''Locality'', ''AdministrativeArea'', ''PostalCode'', ''CountryName'',
     ''Latitude'', ''Longitude'']"

definition lookup_error :: "exn \<Rightarrow> bool" where
  "lookup_error err =
     (err = TypeError \<or> err = AttributeError \<or>
      err \<in> set (map (\<lambda>k. KeyError (PStr k)) record_keys))"

section \<open>The paths through \<open>verify_address\<close>\<close>

lemma and_then_cases:
  assumes "and_then m f = Inl err"
  obtains "m = Inl err" | x where "m = Inr x" and "f x = Inl err"
  using assms by (cases m) auto

lemma getitem_Inl:
  "getitem r k = Inl err \<Longrightarrow> err = TypeError \<or> err = KeyError (PStr k)"
  by (cases r) (auto split: option.splits)

lemma getitem_0_Inl:
  "getitem_0 v = Inl err \<Longrightarrow>
     (err = IndexError \<and> (v = PList [] \<or> v = PStr [])) \<or> err = TypeError \<or>
     err = KeyError (PInt 0)"
  by (cases v rule: getitem_0.cases) auto

lemma getitem_lookup_error:
  "getitem r k = Inl err \<Longrightarrow> k \<in> set record_keys \<Longrightarrow> lookup_error err"
  by (auto dest!: getitem_Inl simp: lookup_error_def)

lemma lookup_error_simps:
  "\<not> lookup_error validation_error" "\<not> lookup_error IndexError" "\<not> lookup_error (Exception m)"
  "\<not> lookup_error (ValueError m)" "\<not> lookup_error (KeyError (PInt i))"
  by (simp_all add: lookup_error_def validation_error_def record_keys_def)

lemma read_fields_Inl:
  assumes "read_fields d fa cs g = Inl err"
  shows "lookup_error err"
  using assms unfolding read_fields_def
  by (elim and_then_cases) (simp_all add: getitem_lookup_error record_keys_def del: getitem.simps)

lemma parse_record_Inl:
  assumes "parse_record b r = Inl err"
  shows "lookup_error err"
proof (cases r)
  case (PDict d)
  from assms have "and_then (getitem (PDict d) ''FormattedAddress'') (\<lambda>formatted_address.
     and_then (getitem (PDict d) ''Results'') (\<lambda>codes_val.
       (case codes_val of
          PStr codes_str \<Rightarrow>
            (case classify b d codes_str of
               (good, codes_str') \<Rightarrow> read_fields d formatted_address codes_str' good)
        | _ \<Rightarrow> Inl AttributeError))) = Inl err"
    unfolding PDict parse_record.simps .
  then show ?thesis
  proof (cases rule: and_then_cases)
    case 1
    then show ?thesis by (rule getitem_lookup_error) (simp add: record_keys_def)
  next
    case (2 fa)
    from 2(2) show ?thesis
    proof (cases rule: and_then_cases)
      case 1
      then show ?thesis by (rule getitem_lookup_error) (simp add: record_keys_def)
    next
      case (2 cv)
      then show ?thesis
        by (cases cv; cases "classify b d (case cv of PStr s \<Rightarrow> s | _ \<Rightarrow> [])")
           (auto simp: lookup_error_def dest: read_fields_Inl simp del: getitem.simps)
    qed
  qed
qed (use assms in \<open>auto simp: lookup_error_def\<close>)

text \<open>What a successful read of the record holds: the fields of the record, and the verdict
  and code string of the classification.\<close>

lemma read_fields_Inr:
  assumes "read_fields d fa cs g = Inr p"
  shows "r_formatted_address p = fa \<and> r_codes p = cs \<and> r_good p = g \<and>
         map_of d ''AddressLine1'' = Some (r_address_1 p) \<and>
         map_of d ''AddressLine2'' = Some (r_address_2 p) \<and>
         map_of d ''AddressLine3'' = Some (r_address_3 p) \<and>
         map_of d ''Locality'' = Some (r_city p) \<and>
         map_of d ''AdministrativeArea'' = Some (r_state p) \<and>
         map_of d ''PostalCode'' = Some (r_postal p) \<and>
         map_of d ''CountryName'' = Some (r_country p) \<and>
         map_of d ''Latitude'' = Some (r_latitude p) \<and>
         map_of d ''Longitude'' = Some (r_longitude p)"
proof -
  have get: "getitem (PDict d) k = Inr v \<Longrightarrow> map_of d k = Some v" for k v
    by (simp split: option.splits)
  have step: "and_then m f = Inr y \<Longrightarrow> (\<And>x. m = Inr x \<Longrightarrow> f x = Inr y \<Longrightarrow> P) \<Longrightarrow> P"
    for m :: "exn + pyval" and f :: "pyval \<Rightarrow> exn + parsed_record" and y P
    by (cases m) auto
  show ?thesis
    using assms unfolding read_fields_def
    by (elim step) (auto dest!: get simp del: getitem.simps)
qed

lemma parse_record_Inr:
  assumes "parse_record b (PDict d) = Inr p"
  shows "\<exists>codes_str. map_of d ''Results'' = Some (PStr codes_str) \<and>
           (r_good p, r_codes p) = classify b d codes_str"
proof -
  have step: "and_then m f = Inr y \<Longrightarrow> (\<And>x. m = Inr x \<Longrightarrow> f x = Inr y \<Longrightarrow> P) \<Longrightarrow> P"
    for m :: "exn + pyval" and f :: "pyval \<Rightarrow> exn + parsed_record" and y P
    by (cases m) auto
  from assms have "and_then (getitem (PDict d) ''FormattedAddress'') (\<lambda>formatted_address.
     and_then (getitem (PDict d) ''Results'') (\<lambda>codes_val.
       (case codes_val of
          PStr codes_str \<Rightarrow>
            (case classify b d codes_str of
               (good, codes_str') \<Rightarrow> read_fields d formatted_address codes_str' good)
        | _ \<Rightarrow> Inl AttributeError))) = Inr p"
    by simp
  then obtain fa cv where cv: "getitem (PDict d) ''Results'' = Inr cv"
    and rest: "(case cv of
          PStr codes_str \<Rightarrow>
            (case classify b d codes_str of
               (good, codes_str') \<Rightarrow> read_fields d fa codes_str' good)
        | _ \<Rightarrow> Inl AttributeError) = Inr p"
    by (elim step) blast
  from rest obtain cs where cs: "cv = PStr cs" by (cases cv) auto
  obtain g cs' where cl: "classify b d cs = (g, cs')" by (cases "classify b d cs") auto
  from rest cs cl have "read_fields d fa cs' g = Inr p" by simp
  from read_fields_Inr [OF this] have "r_good p = g" "r_codes p = cs'" by simp_all
  moreover from cv cs have "map_of d ''Results'' = Some (PStr cs)"
    by (simp split: option.splits)
  ultimately show ?thesis using cl by simp
qed

lemma verify_address_fresh:
  assumes "address_1 \<noteq> []" and "postal \<noteq> []" and "country \<noteq> []"
      and "check_duplicate e (Some address_1) address_2 (Some postal) (Some country) = None"
      and "create_record e (Some address_1) address_2 address_3 city state (Some postal)
             (Some country) = Some record_id"
      and "url = request_url e record_id (Some address_1) address_2 address_3 city state
             (Some postal) (Some country)"
  shows "verify_address e (Some address_1) address_2 address_3 city state (Some postal)
           (Some country) block_po_boxes =
         (fst (handle_response e record_id url block_po_boxes (requests_get e url)),
          [TransactionEnter,
           CheckDuplicate (Some address_1) address_2 (Some postal) (Some country),
           CreateRecord (Some address_1) address_2 address_3 city state (Some postal)
             (Some country),
           RequestsGet url]
          @ snd (handle_response e record_id url block_po_boxes (requests_get e url))
          @ [TransactionExit])"
  using assms by (simp add: verify_address_def transaction_body_def Let_def split: prod.splits)

lemma handle_response_not_ok_str:
  "\<not> ok resp \<Longrightarrow> status_code resp = PStr code \<Longrightarrow> reason resp = PStr txt \<Longrightarrow>
   handle_response e record_id url b resp =
     (Inl (Exception (''Error connecting to Melissa API. Status Code: '' @ code @
                      '' Status Text: '' @ txt)), [])"
  by (simp add: handle_response_def)

lemma handle_response_not_ok_Inl:
  "\<not> ok resp \<Longrightarrow>
   \<exists>err. handle_response e record_id url b resp = (Inl err, []) \<and>
         (err = TypeError \<or> (\<exists>m. err = Exception m))"
  by (cases "status_code resp"; cases "reason resp") (simp_all add: handle_response_def)

lemma handle_response_no_records:
  "ok resp \<Longrightarrow> json_loads e (response_text resp) = Some (PDict obj) \<Longrightarrow>
   map_of obj ''Records'' = None \<Longrightarrow>
   handle_response e record_id url b resp =
     (Inl (Exception (''Melissa Global Address API failed on '' @ record_id)), [Commit])"
  by (simp add: handle_response_def)

lemma handle_response_empty_records:
  "ok resp \<Longrightarrow> json_loads e (response_text resp) = Some (PDict obj) \<Longrightarrow>
   map_of obj ''Records'' = Some (PList []) \<Longrightarrow>
   handle_response e record_id url b resp = (Inl IndexError, [])"
  by (simp add: handle_response_def)

lemma handle_response_record:
  "ok resp \<Longrightarrow> json_loads e (response_text resp) = Some (PDict obj) \<Longrightarrow>
   map_of obj ''Records'' = Some (PList (record_obj # rest)) \<Longrightarrow>
   handle_response e record_id url b resp =
     (case parse_record b record_obj of
        Inl err \<Rightarrow> (Inl err, [])
      | Inr p \<Rightarrow> store_results e record_id url (response_text resp) p)"
  by (simp add: handle_response_def)

lemma store_results_Inl:
  "fst (store_results e record_id url raw p) = Inl err \<Longrightarrow> \<exists>m. err = ValueError m"
  by (auto simp: store_results_def Let_def split: if_splits)

text \<open>With the \<open>Records\<close> key present, what can be raised after the response is decoded.\<close>

lemma handle_response_records_Inl:
  assumes "ok resp" and "json_loads e (response_text resp) = Some (PDict obj)"
      and "map_of obj ''Records'' = Some v"
      and "fst (handle_response e record_id url b resp) = Inl err"
  shows "(err = IndexError \<and> (v = PList [] \<or> v = PStr [])) \<or> err = KeyError (PInt 0) \<or>
         lookup_error err \<or> (\<exists>m. err = ValueError m)"
proof (cases "getitem_0 v")
  case (Inl err')
  with assms have "err = err'" by (simp add: handle_response_def)
  with getitem_0_Inl [OF Inl] show ?thesis by (auto simp: lookup_error_def)
next
  case (Inr record_obj)
  show ?thesis
  proof (cases "parse_record b record_obj")
    case (Inl err')
    with assms Inr have "err = err'" by (simp add: handle_response_def)
    with parse_record_Inl [OF Inl] show ?thesis by simp
  next
    case (Inr p)
    with assms \<open>getitem_0 v = Inr record_obj\<close>
    have "fst (store_results e record_id url (response_text resp) p) = Inl err"
      by (simp add: handle_response_def)
    from store_results_Inl [OF this] show ?thesis by simp
  qed
qed

lemma handle_response_not_validation_error:
  "fst (handle_response e record_id url b resp) \<noteq> Inl validation_error"
proof (cases "ok resp")
  case False
  from handle_response_not_ok_Inl [OF this, of e record_id url b]
  show ?thesis by (auto simp: validation_error_def)
next
  case True
  show ?thesis
  proof (cases "json_loads e (response_text resp)")
    case None
    with True show ?thesis by (simp add: handle_response_def validation_error_def)
  next
    case (Some response_obj)
    show ?thesis
    proof (cases response_obj)
      case (PDict obj)
      show ?thesis
      proof (cases "map_of obj ''Records''")
        case None
        from handle_response_no_records [OF True Some [unfolded PDict] None]
        show ?thesis by (simp add: validation_error_def)
      next
        case (Some v)
        show ?thesis
        proof
          assume "fst (handle_response e record_id url b resp) = Inl validation_error"
          from handle_response_records_Inl
                 [OF True \<open>json_loads e (response_text resp) = Some response_obj\<close> [unfolded PDict]
                     Some this]
          show False by (auto simp: lookup_error_simps) (simp_all add: validation_error_def)
        qed
      qed
    qed (use True Some in \<open>simp_all add: handle_response_def validation_error_def\<close>)
  qed
qed

section \<open>The response classification\<close>

lemma scan_codes_good:
  "\<exists>code \<in> set codes. code \<in> set GOOD_CODES \<Longrightarrow> fst (scan_codes codes (g, e, c)) = True"
  by (induction codes arbitrary: g e c) (auto simp: Let_def)

lemma scan_codes_no_good:
  "\<forall>code \<in> set codes. code \<notin> set GOOD_CODES \<Longrightarrow>
   scan_codes codes (g, e, c) =
     (g, e \<or> (\<exists>code \<in> set codes. take 2 code = ''AE''),
      c \<or> (\<exists>code \<in> set codes. code \<in> set GOOD_CODES_NO_ERROR))"
  by (induction codes arbitrary: g e c) (auto simp: Let_def)

text \<open>
  Claim C1. When the code list holds one of AV21, AV22, AV23, AV24, AV25 and the PO-box
  override does not apply (\<open>block_po_boxes\<close> is false, or the record has no
  \<open>AddressType\<close> equal to \<open>"P"\<close>), the verdict is good, whatever the other codes are.
\<close>

theorem unconditional_good_code_is_good:
  assumes "\<exists>code \<in> set (split_comma codes_str).
             code \<in> set [''AV21'', ''AV22'', ''AV23'', ''AV24'', ''AV25'']"
      and "\<not> block_po_boxes \<or> map_of record_obj ''AddressType'' \<noteq> Some (PStr ''P'')"
  shows "fst (classify block_po_boxes record_obj codes_str) = True"
proof -
  from assms(1) have good: "\<exists>code \<in> set (split_comma codes_str). code \<in> set GOOD_CODES"
    by (auto simp: GOOD_CODES_def)
  obtain g e c where s: "scan_codes (split_comma codes_str) (False, False, False) = (g, e, c)"
    by (cases "scan_codes (split_comma codes_str) (False, False, False)") auto
  from scan_codes_good [OF good, of False False False] s have "g" by simp
  then have "scan_verdict (split_comma codes_str)" by (simp add: scan_verdict_def s)
  moreover have "\<not> po_box_override block_po_boxes record_obj"
    using assms(2) by (auto simp: po_box_override_def)
  ultimately show ?thesis by (simp add: classify_def)
qed

theorem unconditional_good_code_is_good_witness:
  "split_comma ''AE001,AV14,AV25,AE002'' = [''AE001'', ''AV14'', ''AV25'', ''AE002''] \<and>
   map_of (sample_record ''AE001,AV14,AV25,AE002'') ''AddressType'' = Some (PStr ''S'') \<and>
   fst (classify True (sample_record ''AE001,AV14,AV25,AE002'') ''AE001,AV14,AV25,AE002'') = True"
proof -
  have codes: "split_comma ''AE001,AV14,AV25,AE002'' = [''AE001'', ''AV14'', ''AV25'', ''AE002'']"
    by simp
  have h1: "\<exists>code \<in> set (split_comma ''AE001,AV14,AV25,AE002'').
              code \<in> set [''AV21'', ''AV22'', ''AV23'', ''AV24'', ''AV25'']"
    unfolding codes by simp
  have ty: "map_of (sample_record ''AE001,AV14,AV25,AE002'') ''AddressType'' = Some (PStr ''S'')"
    by (simp add: sample_record_def)
  have h2: "\<not> True \<or> map_of (sample_record ''AE001,AV14,AV25,AE002'') ''AddressType''
              \<noteq> Some (PStr ''P'')"
    unfolding ty by simp
  from unconditional_good_code_is_good [OF h1 h2] codes ty show ?thesis by blast
qed

text \<open>
  Claim C2. When the code list holds AV14 and none of AV21 to AV25, and the PO-box override
  does not apply, the verdict is good exactly when no code of the list starts with
  \<open>"AE"\<close>: \<open>["AV14"]\<close> is good, \<open>["AV14", "AE001"]\<close> is bad.
\<close>

theorem conditional_good_code_needs_no_error:
  assumes "''AV14'' \<in> set (split_comma codes_str)"
      and "\<forall>code \<in> set (split_comma codes_str).
             code \<notin> set [''AV21'', ''AV22'', ''AV23'', ''AV24'', ''AV25'']"
      and "\<not> block_po_boxes \<or> map_of record_obj ''AddressType'' \<noteq> Some (PStr ''P'')"
  shows "fst (classify block_po_boxes record_obj codes_str) =
           (\<forall>code \<in> set (split_comma codes_str). take 2 code \<noteq> ''AE'')"
proof -
  have "\<not> po_box_override block_po_boxes record_obj"
    using assms(3) by (auto simp: po_box_override_def)
  moreover have "\<exists>code \<in> set (split_comma codes_str). code \<in> set GOOD_CODES_NO_ERROR"
    using assms(1) by (auto simp: GOOD_CODES_NO_ERROR_def)
  moreover from assms(2) have "\<forall>code \<in> set (split_comma codes_str). code \<notin> set GOOD_CODES"
    by (auto simp: GOOD_CODES_def)
  from scan_codes_no_good [OF this, of False False False]
  have "scan_codes (split_comma codes_str) (False, False, False) =
          (False, (\<exists>code \<in> set (split_comma codes_str). take 2 code = ''AE''),
           (\<exists>code \<in> set (split_comma codes_str). code \<in> set GOOD_CODES_NO_ERROR))"
    by simp
  ultimately show ?thesis
    by (simp add: classify_def scan_verdict_def)
qed

theorem conditional_good_code_needs_no_error_witness:
  "split_comma ''AV14'' = [''AV14''] \<and>
   fst (classify True (sample_record ''AV14'') ''AV14'') = True \<and>
   split_comma ''AV14,AE001'' = [''AV14'', ''AE001''] \<and>
   fst (classify True (sample_record ''AV14,AE001'') ''AV14,AE001'') = False"
proof -
  have c1: "split_comma ''AV14'' = [''AV14'']"
    and c2: "split_comma ''AV14,AE001'' = [''AV14'', ''AE001'']"
    by simp_all
  have ty: "map_of (sample_record codes) ''AddressType'' = Some (PStr ''S'')" for codes
    by (simp add: sample_record_def)
  have "fst (classify True (sample_record ''AV14'') ''AV14'') =
          (\<forall>code \<in> set (split_comma ''AV14''). take 2 code \<noteq> ''AE'')"
    by (rule conditional_good_code_needs_no_error) (simp_all add: ty)
  moreover have "fst (classify True (sample_record ''AV14,AE001'') ''AV14,AE001'') =
          (\<forall>code \<in> set (split_comma ''AV14,AE001''). take 2 code \<noteq> ''AE'')"
    by (rule conditional_good_code_needs_no_error) (simp_all add: ty)
  ultimately show ?thesis unfolding c1 c2 by simp
qed

text \<open>
  Claim C3. The PO-box override applies exactly when \<open>block_po_boxes\<close> is true and the
  record's \<open>AddressType\<close> is \<open>"P"\<close>: then the verdict is bad, whatever the codes are, and
  \<open>",AEPOBOX"\<close> is appended to the code string. Otherwise, and always when
  \<open>block_po_boxes\<close> is false, the verdict and the code string are those of the code scan.
\<close>

theorem po_box_override_forces_bad:
  "classify block_po_boxes record_obj codes_str =
     (if block_po_boxes \<and> map_of record_obj ''AddressType'' = Some (PStr ''P'')
      then (False, codes_str @ '',AEPOBOX'')
      else (scan_verdict (split_comma codes_str), codes_str)) \<and>
   classify False record_obj codes_str = (scan_verdict (split_comma codes_str), codes_str)"
  by (auto simp: classify_def po_box_override_def)

theorem po_box_override_forces_bad_witness:
  "classify True [(''Results'', PStr ''AV25''), (''AddressType'', PStr ''P'')] ''AV25'' =
     (False, ''AV25,AEPOBOX'') \<and>
   classify False [(''Results'', PStr ''AV25''), (''AddressType'', PStr ''P'')] ''AV25'' =
     (True, ''AV25'')"
proof -
  have "scan_verdict (split_comma ''AV25'') = True"
    by (simp add: scan_verdict_def GOOD_CODES_def GOOD_CODES_NO_ERROR_def)
  with po_box_override_forces_bad
         [of True "[(''Results'', PStr ''AV25''), (''AddressType'', PStr ''P'')]" "''AV25''"]
       po_box_override_forces_bad
         [of False "[(''Results'', PStr ''AV25''), (''AddressType'', PStr ''P'')]" "''AV25''"]
  show ?thesis by simp
qed

section \<open>Validation and the duplicate lookup\<close>

text \<open>
  Claim C4. \<open>verify_address\<close> raises the validation error exactly when \<open>address_1\<close>,
  \<open>postal\<close> or \<open>country\<close> is \<open>None\<close> or the empty string, and then nothing has happened:
  no transaction was entered, no repository call was made, no request was sent.
\<close>

theorem validation_error_iff_required_field_missing:
  "(fst (verify_address e line1 line2 line3 city state postal country block_po_boxes) =
      Inl (KeyError (PStr ''Must include address_1, postal, and country fields''))) =
   (line1 = None \<or> line1 = Some [] \<or> postal = None \<or> postal = Some [] \<or>
    country = None \<or> country = Some []) \<and>
   (fst (verify_address e line1 line2 line3 city state postal country block_po_boxes) =
      Inl (KeyError (PStr ''Must include address_1, postal, and country fields'')) \<longrightarrow>
    snd (verify_address e line1 line2 line3 city state postal country block_po_boxes) = [])"
proof -
  have absent_iff: "absent x = (x = None \<or> x = Some [])" for x
    by (cases x) auto
  let ?missing = "absent line1 \<or> absent postal \<or> absent country"
  have raised: "?missing \<Longrightarrow>
      verify_address e line1 line2 line3 city state postal country block_po_boxes =
        (Inl validation_error, [])"
    by (simp add: verify_address_def)
  have not_raised: "fst (verify_address e line1 line2 line3 city state postal country
      block_po_boxes) \<noteq> Inl validation_error" if "\<not> ?missing"
  proof -
    from that have
      "fst (verify_address e line1 line2 line3 city state postal country block_po_boxes) =
       fst (transaction_body e line1 line2 line3 city state postal country block_po_boxes)"
      by (simp add: verify_address_def split: prod.splits)
    moreover have
      "fst (transaction_body e line1 line2 line3 city state postal country block_po_boxes)
         \<noteq> Inl validation_error"
    proof (cases "check_duplicate e line1 line2 postal country")
      case (Some dupe_status)
      then show ?thesis by (simp add: transaction_body_def)
    next
      case None
      show ?thesis
      proof (cases "create_record e line1 line2 line3 city state postal country")
        case None
        with \<open>check_duplicate e line1 line2 postal country = None\<close> show ?thesis
          by (simp add: transaction_body_def validation_error_def)
      next
        case (Some record_id)
        with \<open>check_duplicate e line1 line2 postal country = None\<close> show ?thesis
          using handle_response_not_validation_error
          by (simp add: transaction_body_def Let_def split: prod.splits)
             (metis fst_conv)
      qed
    qed
    ultimately show ?thesis by simp
  qed
  from raised not_raised show ?thesis
    unfolding absent_iff validation_error_def by (metis fst_conv snd_conv)
qed

theorem validation_error_iff_required_field_missing_witness:
  "verify_address (sample_env None (Some ''41'') (ok_response records_body)
       (Some (records_obj ''AV25'')) True)
     None None None None None (Some ''12345'') (Some ''US'') True =
   (Inl (KeyError (PStr ''Must include address_1, postal, and country fields'')), []) \<and>
   fst (verify_address (sample_env None (Some ''41'') (ok_response records_body)
       (Some (records_obj ''AV25'')) True)
     (Some ''123 Main St'') None None None None (Some ''12345'') (Some ''US'') True) \<noteq>
   Inl (KeyError (PStr ''Must include address_1, postal, and country fields''))"
  using validation_error_iff_required_field_missing
          [of "sample_env None (Some ''41'') (ok_response records_body)
                 (Some (records_obj ''AV25'')) True"
              None None None None None "Some ''12345''" "Some ''US''" True]
        validation_error_iff_required_field_missing
          [of "sample_env None (Some ''41'') (ok_response records_body)
                 (Some (records_obj ''AV25'')) True"
              "Some ''123 Main St''" None None None None "Some ''12345''" "Some ''US''" True]
  by (simp add: prod_eq_iff)

text \<open>
  Claim C5. When the duplicate lookup on \<open>(address_1, address_2, postal, country)\<close> finds a
  prior record, \<open>verify_address\<close> returns that record's stored fields with
  \<open>duplicate = True\<close>; the lookup is the only call made: no record is created or
  updated and no request is sent.
\<close>

theorem duplicate_returns_stored_fields:
  assumes "line1 \<noteq> []" and "postal \<noteq> []" and "country \<noteq> []"
      and "check_duplicate e (Some line1) line2 (Some postal) (Some country) = Some dupe_status"
  shows "verify_address e (Some line1) line2 line3 city state (Some postal) (Some country)
           block_po_boxes =
         (Inr [(''address_1'', result_address_1 dupe_status),
               (''address_2'', result_address_2 dupe_status),
               (''address_3'', result_address_3 dupe_status),
               (''city'', result_city dupe_status),
               (''state'', result_state dupe_status),
               (''postal'', result_postal dupe_status),
               (''country'', result_country dupe_status),
               (''latitude'', result_latitude dupe_status),
               (''longitude'', result_longitude dupe_status),
               (''valid'', result_good dupe_status),
               (''duplicate'', PBool True)],
          [TransactionEnter,
           CheckDuplicate (Some line1) line2 (Some postal) (Some country),
           TransactionExit])"
  using assms by (simp add: verify_address_def transaction_body_def)

theorem duplicate_returns_stored_fields_witness:
  "check_duplicate (sample_env (Some sample_row) (Some ''41'') error_response None False)
     (Some ''123 Main St'') None (Some ''12345'') (Some ''US'') = Some sample_row \<and>
   verify_address (sample_env (Some sample_row) (Some ''41'') error_response None False)
     (Some ''123 Main St'') None None None None (Some ''12345'') (Some ''US'') True =
   (Inr [(''address_1'', PStr ''123 Main St''),
         (''address_2'', PNone),
         (''address_3'', PNone),
         (''city'', PStr ''Springfield''),
         (''state'', PStr ''IL''),
         (''postal'', PStr ''12345-6789''),
         (''country'', PStr ''United States of America''),
         (''latitude'', PStr ''39.7817''),
         (''longitude'', PStr ''-89.6501''),
         (''valid'', PBool True),
         (''duplicate'', PBool True)],
    [TransactionEnter,
     CheckDuplicate (Some ''123 Main St'') None (Some ''12345'') (Some ''US''),
     TransactionExit])"
proof -
  have h: "check_duplicate (sample_env (Some sample_row) (Some ''41'') error_response None False)
     (Some ''123 Main St'') None (Some ''12345'') (Some ''US'') = Some sample_row"
    by (simp add: sample_env_def)
  have n: "''123 Main St'' \<noteq> []" "''12345'' \<noteq> []" "''US'' \<noteq> []"
    by simp_all
  from duplicate_returns_stored_fields [OF n h, of None None None True] h
  show ?thesis by (simp add: sample_row_def)
qed

section \<open>The provider's response\<close>

text \<open>
  Claim C6, as amended. When the decoded response has no \<open>Records\<close> key,
  \<open>verify_address\<close> commits and then raises the provider-format error. The only write
  before that commit is \<open>create_record\<close> with the seven input fields;
  \<open>update_results\<close> is not called, so the response text is not persisted on the record.
\<close>

theorem missing_records_commits_created_record:
  assumes "line1 \<noteq> []" and "postal \<noteq> []" and "country \<noteq> []"
      and "check_duplicate e (Some line1) line2 (Some postal) (Some country) = None"
      and "create_record e (Some line1) line2 line3 city state (Some postal) (Some country) =
             Some record_id"
      and "url = request_url e record_id (Some line1) line2 line3 city state (Some postal)
             (Some country)"
      and "ok (requests_get e url)"
      and "json_loads e (response_text (requests_get e url)) = Some (PDict obj)"
      and "map_of obj ''Records'' = None"
  shows "verify_address e (Some line1) line2 line3 city state (Some postal) (Some country)
           block_po_boxes =
         (Inl (Exception (''Melissa Global Address API failed on '' @ record_id)),
          [TransactionEnter,
           CheckDuplicate (Some line1) line2 (Some postal) (Some country),
           CreateRecord (Some line1) line2 line3 city state (Some postal) (Some country),
           RequestsGet url,
           Commit,
           TransactionExit]) \<and>
         \<not> raw_response_persisted record_id (response_text (requests_get e url))
             (snd (verify_address e (Some line1) line2 line3 city state (Some postal)
                (Some country) block_po_boxes))"
proof -
  have run: "verify_address e (Some line1) line2 line3 city state (Some postal) (Some country)
           block_po_boxes =
         (Inl (Exception (''Melissa Global Address API failed on '' @ record_id)),
          [TransactionEnter,
           CheckDuplicate (Some line1) line2 (Some postal) (Some country),
           CreateRecord (Some line1) line2 line3 city state (Some postal) (Some country),
           RequestsGet url,
           Commit,
           TransactionExit])"
    unfolding verify_address_fresh [OF assms(1-6)]
              handle_response_no_records [OF assms(7-9)]
    by simp
  show ?thesis unfolding run by (simp add: raw_response_persisted_def)
qed

theorem missing_records_commits_created_record_witness:
  "verify_address
     (sample_env None (Some ''41'') (ok_response no_records_body) (Some no_records_obj) True)
     (Some ''123 Main St'') None None None None (Some ''12345'') (Some ''US'') True =
   (Inl (Exception ''Melissa Global Address API failed on 41''),
    [TransactionEnter,
     CheckDuplicate (Some ''123 Main St'') None (Some ''12345'') (Some ''US''),
     CreateRecord (Some ''123 Main St'') None None None None (Some ''12345'') (Some ''US''),
     RequestsGet ''https://melissa.example/doGlobalAddress?query'',
     Commit,
     TransactionExit])"
proof -
  let ?e = "sample_env None (Some ''41'') (ok_response no_records_body) (Some no_records_obj)
              True"
  have n: "''123 Main St'' \<noteq> []" "''12345'' \<noteq> []" "''US'' \<noteq> []"
    by simp_all
  have h4: "check_duplicate ?e (Some ''123 Main St'') None (Some ''12345'') (Some ''US'') = None"
    by (simp add: sample_env_def)
  have h5: "create_record ?e (Some ''123 Main St'') None None None None (Some ''12345'')
              (Some ''US'') = Some ''41''"
    by (simp add: sample_env_def)
  have h6: "''https://melissa.example/doGlobalAddress?query'' =
              request_url ?e ''41'' (Some ''123 Main St'') None None None None (Some ''12345'')
                (Some ''US'')"
    by (simp add: request_url_def sample_env_def)
  have h7: "ok (requests_get ?e ''https://melissa.example/doGlobalAddress?query'')"
    by (simp add: sample_env_def ok_response_def)
  have h8: "json_loads ?e
              (response_text (requests_get ?e ''https://melissa.example/doGlobalAddress?query'')) =
            Some (PDict [(''Version'', PStr ''3.0.1.160''), (''TransmissionResults'', PStr ''GE05''),
                         (''TotalRecords'', PStr ''0'')])"
    by (simp add: sample_env_def no_records_obj_def)
  have h9: "map_of [(''Version'', PStr ''3.0.1.160''), (''TransmissionResults'', PStr ''GE05''),
                    (''TotalRecords'', PStr ''0'')] ''Records'' = None"
    by simp
  from missing_records_commits_created_record [OF n h4 h5 h6 h7 h8 h9, of True]
  show ?thesis by simp
qed

text \<open>
  Claim C6 as stated fails: the claim has the response text persisted on the record after
  the commit. At this input the error is raised after the commit and the response text
  never reached the repository.
\<close>

theorem missing_records_raw_response_not_persisted:
  "fst (verify_address
     (sample_env None (Some ''41'') (ok_response no_records_body) (Some no_records_obj) True)
     (Some ''123 Main St'') None None None None (Some ''12345'') (Some ''US'') True) =
   Inl (Exception ''Melissa Global Address API failed on 41'') \<and>
   \<not> raw_response_persisted ''41'' no_records_body
       (snd (verify_address
          (sample_env None (Some ''41'') (ok_response no_records_body) (Some no_records_obj)
             True)
          (Some ''123 Main St'') None None None None (Some ''12345'') (Some ''US'') True))"
  by (simp add: verify_address_def transaction_body_def handle_response_def request_url_def
        sample_env_def ok_response_def no_records_obj_def raw_response_persisted_def)

text \<open>
  Claim C7, as amended. On the fresh path (no duplicate, an OK response whose first record
  is read, an update that succeeds) the returned dict holds the ten keys \<open>address_1\<close> to
  \<open>valid\<close> and no \<open>duplicate\<close> key.
\<close>

theorem fresh_result_has_no_duplicate_key:
  assumes "line1 \<noteq> []" and "postal \<noteq> []" and "country \<noteq> []"
      and "check_duplicate e (Some line1) line2 (Some postal) (Some country) = None"
      and "create_record e (Some line1) line2 line3 city state (Some postal) (Some country) =
             Some record_id"
      and "url = request_url e record_id (Some line1) line2 line3 city state (Some postal)
             (Some country)"
      and "ok (requests_get e url)"
      and "json_loads e (response_text (requests_get e url)) = Some (PDict obj)"
      and "map_of obj ''Records'' = Some (PList (record_obj # rest))"
      and "parse_record block_po_boxes record_obj = Inr p"
      and "update_results e record_id url (response_text (requests_get e url)) p"
  shows "fst (verify_address e (Some line1) line2 line3 city state (Some postal) (Some country)
           block_po_boxes) =
         Inr [(''address_1'', r_address_1 p),
              (''address_2'', r_address_2 p),
              (''address_3'', r_address_3 p),
              (''city'', r_city p),
              (''state'', r_state p),
              (''postal'', r_postal p),
              (''country'', r_country p),
              (''latitude'', r_latitude p),
              (''longitude'', r_longitude p),
              (''valid'', PBool (r_good p))] \<and>
         map_of (projr (fst (verify_address e (Some line1) line2 line3 city state (Some postal)
           (Some country) block_po_boxes))) ''duplicate'' = None"
proof -
  have "handle_response e record_id url block_po_boxes (requests_get e url) =
          store_results e record_id url (response_text (requests_get e url)) p"
    unfolding handle_response_record [OF assms(7-9)] using assms(10) by simp
  then show ?thesis
    unfolding verify_address_fresh [OF assms(1-6)] using assms(11)
    by (simp add: store_results_def)
qed

lemma sample_fresh_path:
  fixes u_success :: bool
  defines "e \<equiv> sample_env None (Some ''41'') (ok_response records_body)
                  (Some (records_obj ''AV25'')) u_success"
  shows "check_duplicate e (Some ''123 Main St'') None (Some ''12345'') (Some ''US'') = None"
    and "create_record e (Some ''123 Main St'') None None None None (Some ''12345'')
           (Some ''US'') = Some ''41''"
    and "''https://melissa.example/doGlobalAddress?query'' =
           request_url e ''41'' (Some ''123 Main St'') None None None None (Some ''12345'')
             (Some ''US'')"
    and "ok (requests_get e ''https://melissa.example/doGlobalAddress?query'')"
    and "response_text (requests_get e ''https://melissa.example/doGlobalAddress?query'') =
           records_body"
    and "json_loads e records_body =
           Some (PDict [(''Version'', PStr ''3.0.1.160''), (''TotalRecords'', PStr ''1''),
                        (''Records'', PList [PDict (sample_record ''AV25'')])])"
    and "update_results e ''41'' ''https://melissa.example/doGlobalAddress?query''
           records_body sample_parsed = u_success"
  by (simp_all add: e_def sample_env_def ok_response_def request_url_def records_obj_def)

lemma sample_record_parsed:
  "parse_record True (PDict (sample_record ''AV25'')) = Inr sample_parsed"
  by (simp add: sample_record_def sample_parsed_def read_fields_def classify_def
        po_box_override_def scan_verdict_def GOOD_CODES_def GOOD_CODES_NO_ERROR_def)

theorem fresh_result_has_no_duplicate_key_witness:
  "fst (verify_address
     (sample_env None (Some ''41'') (ok_response records_body) (Some (records_obj ''AV25'')) True)
     (Some ''123 Main St'') None None None None (Some ''12345'') (Some ''US'') True) =
   Inr [(''address_1'', PStr ''123 Main St''),
        (''address_2'', PStr ''Springfield IL 12345-6789''),
        (''address_3'', PStr []),
        (''city'', PStr ''Springfield''),
        (''state'', PStr ''IL''),
        (''postal'', PStr ''12345-6789''),
        (''country'', PStr ''United States of America''),
        (''latitude'', PStr ''39.7817''),
        (''longitude'', PStr ''-89.6501''),
        (''valid'', PBool True)]"
proof -
  let ?e = "sample_env None (Some ''41'') (ok_response records_body)
              (Some (records_obj ''AV25'')) True"
  note path = sample_fresh_path [of True]
  have n: "''123 Main St'' \<noteq> []" "''12345'' \<noteq> []" "''US'' \<noteq> []"
    by simp_all
  have h8: "json_loads ?e
      (response_text (requests_get ?e ''https://melissa.example/doGlobalAddress?query'')) =
      Some (PDict [(''Version'', PStr ''3.0.1.160''), (''TotalRecords'', PStr ''1''),
                   (''Records'', PList [PDict (sample_record ''AV25'')])])"
    unfolding path(5) by (rule path(6))
  have h9: "map_of [(''Version'', PStr ''3.0.1.160''), (''TotalRecords'', PStr ''1''),
                    (''Records'', PList [PDict (sample_record ''AV25'')])] ''Records'' =
            Some (PList (PDict (sample_record ''AV25'') # []))"
    by simp
  have h11: "update_results ?e ''41'' ''https://melissa.example/doGlobalAddress?query''
      (response_text (requests_get ?e ''https://melissa.example/doGlobalAddress?query''))
      sample_parsed"
    unfolding path(5) path(7) by simp
  from fresh_result_has_no_duplicate_key
         [OF n path(1) path(2) path(3) path(4) h8 h9 sample_record_parsed h11]
  show ?thesis by (simp add: sample_parsed_def)
qed

text \<open>
  Claim C7 as stated fails: the claim has the returned dict carry \<open>duplicate = False\<close>.
  At this input the dict is returned without any \<open>duplicate\<close> key.
\<close>

theorem fresh_result_duplicate_flag_absent:
  "fst (verify_address
     (sample_env None (Some ''41'') (ok_response records_body) (Some (records_obj ''AV25'')) True)
     (Some ''123 Main St'') None None None None (Some ''12345'') (Some ''US'') True) =
   Inr [(''address_1'', PStr ''123 Main St''),
        (''address_2'', PStr ''Springfield IL 12345-6789''),
        (''address_3'', PStr []),
        (''city'', PStr ''Springfield''),
        (''state'', PStr ''IL''),
        (''postal'', PStr ''12345-6789''),
        (''country'', PStr ''United States of America''),
        (''latitude'', PStr ''39.7817''),
        (''longitude'', PStr ''-89.6501''),
        (''valid'', PBool True)] \<and>
   map_of (projr (fst (verify_address
     (sample_env None (Some ''41'') (ok_response records_body) (Some (records_obj ''AV25'')) True)
     (Some ''123 Main St'') None None None None (Some ''12345'') (Some ''US'') True)))
     ''duplicate'' \<noteq> Some (PBool False)"
  by (simp add: verify_address_def transaction_body_def handle_response_def request_url_def
        store_results_def sample_env_def ok_response_def records_obj_def Let_def
        sample_record_def read_fields_def classify_def
        po_box_override_def scan_verdict_def GOOD_CODES_def GOOD_CODES_NO_ERROR_def)

text \<open>
  Claim C8: a response that is not OK raises an error whose message carries the status
  code and the reason. Lines 95 to 98 build that message, but the status code of a
  \<open>requests\<close> response is an integer, and line 96 concatenates it to a string:
  \<open>TypeError\<close> is raised there, and that is what the caller receives, without status
  code or reason. With a string in its place the message is built as claimed
  (\<open>handle_response_not_ok_str\<close>).
\<close>

theorem non_ok_response_raises_type_error:
  assumes "line1 \<noteq> []" and "postal \<noteq> []" and "country \<noteq> []"
      and "check_duplicate e (Some line1) line2 (Some postal) (Some country) = None"
      and "create_record e (Some line1) line2 line3 city state (Some postal) (Some country) =
             Some record_id"
      and "url = request_url e record_id (Some line1) line2 line3 city state (Some postal)
             (Some country)"
      and "\<not> ok (requests_get e url)"
      and "status_code (requests_get e url) = PInt n"
  shows "verify_address e (Some line1) line2 line3 city state (Some postal) (Some country)
           block_po_boxes =
         (Inl TypeError,
          [TransactionEnter,
           CheckDuplicate (Some line1) line2 (Some postal) (Some country),
           CreateRecord (Some line1) line2 line3 city state (Some postal) (Some country),
           RequestsGet url,
           TransactionExit])"
proof -
  from assms(7,8)
  have "handle_response e record_id url block_po_boxes (requests_get e url) = (Inl TypeError, [])"
    by (simp add: handle_response_def)
  then show ?thesis unfolding verify_address_fresh [OF assms(1-6)] by simp
qed

theorem non_ok_response_raises_type_error_witness:
  "verify_address (sample_env None (Some ''41'') error_response None True)
     (Some ''123 Main St'') None None None None (Some ''12345'') (Some ''US'') True =
   (Inl TypeError,
    [TransactionEnter,
     CheckDuplicate (Some ''123 Main St'') None (Some ''12345'') (Some ''US''),
     CreateRecord (Some ''123 Main St'') None None None None (Some ''12345'') (Some ''US''),
     RequestsGet ''https://melissa.example/doGlobalAddress?query'',
     TransactionExit])"
proof -
  let ?e = "sample_env None (Some ''41'') error_response None True"
  have n: "''123 Main St'' \<noteq> []" "''12345'' \<noteq> []" "''US'' \<noteq> []"
    by simp_all
  have h4: "check_duplicate ?e (Some ''123 Main St'') None (Some ''12345'') (Some ''US'') = None"
    by (simp add: sample_env_def)
  have h5: "create_record ?e (Some ''123 Main St'') None None None None (Some ''12345'')
              (Some ''US'') = Some ''41''"
    by (simp add: sample_env_def)
  have h6: "''https://melissa.example/doGlobalAddress?query'' =
              request_url ?e ''41'' (Some ''123 Main St'') None None None None (Some ''12345'')
                (Some ''US'')"
    by (simp add: request_url_def sample_env_def)
  have h7: "\<not> ok (requests_get ?e ''https://melissa.example/doGlobalAddress?query'')"
    by (simp add: sample_env_def error_response_def)
  have h8: "status_code (requests_get ?e ''https://melissa.example/doGlobalAddress?query'') =
              PInt 500"
    by (simp add: sample_env_def error_response_def)
  from non_ok_response_raises_type_error [OF n h4 h5 h6 h7 h8, of True]
  show ?thesis .
qed

text \<open>
  Claim C9, as amended. When \<open>update_results\<close> reports failure, \<open>verify_address\<close> raises
  the persistence error after the commit: the update and the commit have both happened.
\<close>

theorem update_failure_raised_after_commit:
  assumes "line1 \<noteq> []" and "postal \<noteq> []" and "country \<noteq> []"
      and "check_duplicate e (Some line1) line2 (Some postal) (Some country) = None"
      and "create_record e (Some line1) line2 line3 city state (Some postal) (Some country) =
             Some record_id"
      and "url = request_url e record_id (Some line1) line2 line3 city state (Some postal)
             (Some country)"
      and "ok (requests_get e url)"
      and "json_loads e (response_text (requests_get e url)) = Some (PDict obj)"
      and "map_of obj ''Records'' = Some (PList (record_obj # rest))"
      and "parse_record block_po_boxes record_obj = Inr p"
      and "\<not> update_results e record_id url (response_text (requests_get e url)) p"
  shows "verify_address e (Some line1) line2 line3 city state (Some postal) (Some country)
           block_po_boxes =
         (Inl (ValueError (''Failed to update results for Melissa Address Query '' @ record_id)),
          [TransactionEnter,
           CheckDuplicate (Some line1) line2 (Some postal) (Some country),
           CreateRecord (Some line1) line2 line3 city state (Some postal) (Some country),
           RequestsGet url,
           UpdateResults record_id url (response_text (requests_get e url)) p,
           Commit,
           TransactionExit])"
proof -
  have "handle_response e record_id url block_po_boxes (requests_get e url) =
          store_results e record_id url (response_text (requests_get e url)) p"
    unfolding handle_response_record [OF assms(7-9)] using assms(10) by simp
  then show ?thesis
    unfolding verify_address_fresh [OF assms(1-6)] using assms(11)
    by (simp add: store_results_def)
qed

theorem update_failure_raised_after_commit_witness:
  "verify_address
     (sample_env None (Some ''41'') (ok_response records_body) (Some (records_obj ''AV25'')) False)
     (Some ''123 Main St'') None None None None (Some ''12345'') (Some ''US'') True =
   (Inl (ValueError ''Failed to update results for Melissa Address Query 41''),
    [TransactionEnter,
     CheckDuplicate (Some ''123 Main St'') None (Some ''12345'') (Some ''US''),
     CreateRecord (Some ''123 Main St'') None None None None (Some ''12345'') (Some ''US''),
     RequestsGet ''https://melissa.example/doGlobalAddress?query'',
     UpdateResults ''41'' ''https://melissa.example/doGlobalAddress?query'' records_body
       sample_parsed,
     Commit,
     TransactionExit])"
proof -
  let ?e = "sample_env None (Some ''41'') (ok_response records_body)
              (Some (records_obj ''AV25'')) False"
  note path = sample_fresh_path [of False]
  have n: "''123 Main St'' \<noteq> []" "''12345'' \<noteq> []" "''US'' \<noteq> []"
    by simp_all
  have h8: "json_loads ?e
      (response_text (requests_get ?e ''https://melissa.example/doGlobalAddress?query'')) =
      Some (PDict [(''Version'', PStr ''3.0.1.160''), (''TotalRecords'', PStr ''1''),
                   (''Records'', PList [PDict (sample_record ''AV25'')])])"
    unfolding path(5) by (rule path(6))
  have h9: "map_of [(''Version'', PStr ''3.0.1.160''), (''TotalRecords'', PStr ''1''),
                    (''Records'', PList [PDict (sample_record ''AV25'')])] ''Records'' =
            Some (PList (PDict (sample_record ''AV25'') # []))"
    by simp
  have h11: "\<not> update_results ?e ''41'' ''https://melissa.example/doGlobalAddress?query''
      (response_text (requests_get ?e ''https://melissa.example/doGlobalAddress?query''))
      sample_parsed"
    unfolding path(5) path(7) by simp
  from update_failure_raised_after_commit
         [OF n path(1) path(2) path(3) path(4) h8 h9 sample_record_parsed h11]
  show ?thesis unfolding path(5) by simp
qed

text \<open>
  On the path where the update is made, the response text is persisted before the commit:
  the predicate that fails when the \<open>Records\<close> key is absent holds there.
\<close>

lemma update_path_persists_raw_response:
  "raw_response_persisted ''41'' records_body
     (snd (verify_address
        (sample_env None (Some ''41'') (ok_response records_body) (Some (records_obj ''AV25''))
           True)
        (Some ''123 Main St'') None None None None (Some ''12345'') (Some ''US'') True))"
  by (simp add: verify_address_def transaction_body_def handle_response_def request_url_def
        store_results_def sample_env_def ok_response_def records_obj_def Let_def
        sample_record_def read_fields_def classify_def raw_response_persisted_def
        po_box_override_def scan_verdict_def GOOD_CODES_def GOOD_CODES_NO_ERROR_def)

text \<open>
  Claim C9 as stated fails: the claim has the error raised before the commit, so that the
  commit does not occur. At this input the update fails, the error is raised, and the
  commit has occurred.
\<close>

theorem update_failure_commit_occurs:
  "fst (verify_address
     (sample_env None (Some ''41'') (ok_response records_body) (Some (records_obj ''AV25'')) False)
     (Some ''123 Main St'') None None None None (Some ''12345'') (Some ''US'') True) =
   Inl (ValueError ''Failed to update results for Melissa Address Query 41'') \<and>
   Commit \<in> set (snd (verify_address
     (sample_env None (Some ''41'') (ok_response records_body) (Some (records_obj ''AV25'')) False)
     (Some ''123 Main St'') None None None None (Some ''12345'') (Some ''US'') True))"
  by (simp add: verify_address_def transaction_body_def handle_response_def request_url_def
        store_results_def sample_env_def ok_response_def records_obj_def Let_def
        sample_record_def read_fields_def classify_def
        po_box_override_def scan_verdict_def GOOD_CODES_def GOOD_CODES_NO_ERROR_def)

text \<open>
  Claim C10. With the \<open>Records\<close> key present the function reads \<open>Records[0]\<close> without
  checking the length: an empty list raises \<open>IndexError\<close>, with nothing committed, and a
  list raises it only when it is empty. The provider-format error, which follows a commit,
  is raised exactly when the key is absent.
\<close>

theorem empty_records_raises_index_error:
  assumes "line1 \<noteq> []" and "postal \<noteq> []" and "country \<noteq> []"
      and "check_duplicate e (Some line1) line2 (Some postal) (Some country) = None"
      and "create_record e (Some line1) line2 line3 city state (Some postal) (Some country) =
             Some record_id"
      and "url = request_url e record_id (Some line1) line2 line3 city state (Some postal)
             (Some country)"
      and "ok (requests_get e url)"
      and "json_loads e (response_text (requests_get e url)) = Some (PDict obj)"
  shows "(map_of obj ''Records'' = Some (PList []) \<longrightarrow>
            verify_address e (Some line1) line2 line3 city state (Some postal) (Some country)
              block_po_boxes =
            (Inl IndexError,
             [TransactionEnter,
              CheckDuplicate (Some line1) line2 (Some postal) (Some country),
              CreateRecord (Some line1) line2 line3 city state (Some postal) (Some country),
              RequestsGet url,
              TransactionExit])) \<and>
         (\<forall>records. map_of obj ''Records'' = Some (PList records) \<longrightarrow>
            (fst (verify_address e (Some line1) line2 line3 city state (Some postal)
                    (Some country) block_po_boxes) = Inl IndexError) = (records = [])) \<and>
         (fst (verify_address e (Some line1) line2 line3 city state (Some postal) (Some country)
                 block_po_boxes) =
            Inl (Exception (''Melissa Global Address API failed on '' @ record_id))) =
           (map_of obj ''Records'' = None)"
proof -
  let ?h = "handle_response e record_id url block_po_boxes (requests_get e url)"
  note run = verify_address_fresh [OF assms(1-6)]
  have empty: "?h = (Inl IndexError, [])" if "map_of obj ''Records'' = Some (PList [])"
    using handle_response_empty_records [OF assms(7,8) that] .
  have index: "(fst ?h = Inl IndexError) = (records = [])"
    if "map_of obj ''Records'' = Some (PList records)" for records
  proof
    assume "fst ?h = Inl IndexError"
    from handle_response_records_Inl [OF assms(7,8) that this]
    show "records = []" by (auto simp: lookup_error_simps)
  next
    assume "records = []"
    with that empty show "fst ?h = Inl IndexError" by simp
  qed
  have format:
    "(fst ?h = Inl (Exception (''Melissa Global Address API failed on '' @ record_id))) =
       (map_of obj ''Records'' = None)"
  proof
    assume raised: "fst ?h = Inl (Exception (''Melissa Global Address API failed on '' @ record_id))"
    show "map_of obj ''Records'' = None"
    proof (rule ccontr)
      assume "map_of obj ''Records'' \<noteq> None"
      then obtain v where "map_of obj ''Records'' = Some v" by auto
      from handle_response_records_Inl [OF assms(7,8) this raised]
      show False by (auto simp: lookup_error_simps)
    qed
  next
    assume "map_of obj ''Records'' = None"
    from handle_response_no_records [OF assms(7,8) this]
    show "fst ?h = Inl (Exception (''Melissa Global Address API failed on '' @ record_id))"
      by simp
  qed
  from empty index format show ?thesis unfolding run by simp
qed

theorem empty_records_raises_index_error_witness:
  "verify_address
     (sample_env None (Some ''41'') (ok_response empty_records_body) (Some empty_records_obj)
        True)
     (Some ''123 Main St'') None None None None (Some ''12345'') (Some ''US'') True =
   (Inl IndexError,
    [TransactionEnter,
     CheckDuplicate (Some ''123 Main St'') None (Some ''12345'') (Some ''US''),
     CreateRecord (Some ''123 Main St'') None None None None (Some ''12345'') (Some ''US''),
     RequestsGet ''https://melissa.example/doGlobalAddress?query'',
     TransactionExit]) \<and>
   fst (verify_address
     (sample_env None (Some ''41'') (ok_response empty_records_body) (Some empty_records_obj)
        True)
     (Some ''123 Main St'') None None None None (Some ''12345'') (Some ''US'') True) \<noteq>
   Inl (Exception ''Melissa Global Address API failed on 41'')"
proof -
  let ?e = "sample_env None (Some ''41'') (ok_response empty_records_body)
              (Some empty_records_obj) True"
  have n: "''123 Main St'' \<noteq> []" "''12345'' \<noteq> []" "''US'' \<noteq> []"
    by simp_all
  have h4: "check_duplicate ?e (Some ''123 Main St'') None (Some ''12345'') (Some ''US'') = None"
    by (simp add: sample_env_def)
  have h5: "create_record ?e (Some ''123 Main St'') None None None None (Some ''12345'')
              (Some ''US'') = Some ''41''"
    by (simp add: sample_env_def)
  have h6: "''https://melissa.example/doGlobalAddress?query'' =
              request_url ?e ''41'' (Some ''123 Main St'') None None None None (Some ''12345'')
                (Some ''US'')"
    by (simp add: request_url_def sample_env_def)
  have h7: "ok (requests_get ?e ''https://melissa.example/doGlobalAddress?query'')"
    by (simp add: sample_env_def ok_response_def)
  have h8: "json_loads ?e
              (response_text (requests_get ?e ''https://melissa.example/doGlobalAddress?query'')) =
            Some (PDict [(''Version'', PStr ''3.0.1.160''), (''TotalRecords'', PStr ''0''),
                         (''Records'', PList [])])"
    by (simp add: sample_env_def empty_records_obj_def)
  from empty_records_raises_index_error [OF n h4 h5 h6 h7 h8, of True]
  show ?thesis by simp
qed


end
